theory Spec2Isabelle
  imports Complex_Main
begin

section \<open>Arrays and exceptions\<close>

text \<open>
  The reconstruction code works on flat NumPy arrays of floating-point numbers. An array
  is modelled as a list of reals: the arithmetic below is the exact arithmetic that the
  floating-point operations approximate. A Python exception is a value of
  \<open>py_error\<close>, and a function that may raise returns \<open>py_error + 'a\<close>.
\<close>

datatype py_error = ValueError | KeyError | TypeError | AttributeError | IndexError

type_synonym nda = "real list"

text \<open>\<open>np.zeros(n)\<close>.\<close>

definition np_zeros :: "nat \<Rightarrow> nda" where
  "np_zeros n = replicate n 0"

text \<open>
  A bound of a Python slice on a sequence of length \<open>n\<close>: a negative bound counts from
  the end, every bound is clipped to the sequence, and a missing bound takes the default
  \<open>d\<close>. Note that \<open>-0\<close> is \<open>0\<close>, a bound at the start of the array.
\<close>

definition slice_index :: "nat \<Rightarrow> int option \<Rightarrow> nat \<Rightarrow> nat" where
  "slice_index n b d =
     (case b of
        None \<Rightarrow> d
      | Some i \<Rightarrow> if i < 0 then nat (max 0 (int n + i)) else min n (nat i))"

text \<open>\<open>a[lo:hi]\<close>.\<close>

definition get_slice :: "'a list \<Rightarrow> int option \<Rightarrow> int option \<Rightarrow> 'a list" where
  "get_slice a lo hi =
     (let l = slice_index (length a) lo 0;
          h = slice_index (length a) hi (length a)
      in take (h - l) (drop l a))"

text \<open>
  \<open>a[lo:hi] = v\<close> on a one-dimensional array: the value has the length of the slice,
  or it has length one and is broadcast; every other length raises \<open>ValueError\<close>.
\<close>

definition set_slice :: "nda \<Rightarrow> int option \<Rightarrow> int option \<Rightarrow> nda \<Rightarrow> py_error + nda" where
  "set_slice a lo hi v =
     (let l = slice_index (length a) lo 0;
          h = slice_index (length a) hi (length a);
          k = h - l
      in if length v = k then Inr (take l a @ v @ drop (l + k) a)
         else if length v = 1 then Inr (take l a @ replicate k (hd v) @ drop (l + k) a)
         else Inl ValueError)"

text \<open>Element-wise binary operations of one-dimensional arrays, with broadcasting.\<close>

definition np_binop :: "(real \<Rightarrow> real \<Rightarrow> real) \<Rightarrow> nda \<Rightarrow> nda \<Rightarrow> py_error + nda" where
  "np_binop f a b =
     (if length a = length b then Inr (map2 f a b)
      else if length b = 1 then Inr (map (\<lambda>v. f v (hd b)) a)
      else if length a = 1 then Inr (map (\<lambda>v. f (hd a) v) b)
      else Inl ValueError)"

definition np_add :: "nda \<Rightarrow> nda \<Rightarrow> py_error + nda" where
  "np_add = np_binop (+)"

definition np_sub :: "nda \<Rightarrow> nda \<Rightarrow> py_error + nda" where
  "np_sub = np_binop (-)"

definition np_mul :: "nda \<Rightarrow> nda \<Rightarrow> py_error + nda" where
  "np_mul = np_binop (*)"

text \<open>\<open>np.sum(v**2)\<close>.\<close>

definition sum_sq :: "nda \<Rightarrow> real" where
  "sum_sq v = sum_list (map (\<lambda>a. a\<^sup>2) v)"

text \<open>The inner product \<open><u, v>\<close> of the adjoint test.\<close>

definition dot :: "nda \<Rightarrow> nda \<Rightarrow> real" where
  "dot u v = sum_list (map2 (*) u v)"

section \<open>The Tikhonov solver\<close>

text \<open>
  A \<open>Stack\<close> object, as far as the solver and the registration read it: the voxel data
  of its ITK image, of its SimpleITK image and of its mask, each as a flat array.
\<close>

record stack =
  itk :: nda
  sitk :: nda
  sitk_mask :: nda

text \<open>
  The attributes of a \<open>TikhonovSolver\<close> that its methods read or write. All but the
  last three are set by the constructor of the superclass \<open>Solver\<close>; the two voxel counts
  are natural numbers, and \<open>elapsed_time_sec\<close> is \<open>None\<close> while the attribute holds no
  number.
\<close>

record tikhonov_solver =
  stacks :: "stack list"
  HR_volume :: stack
  alpha :: real
  iter_max :: int
  minimizer :: string
  N_total_slice_voxels :: nat
  N_voxels_HR_volume :: nat
  elapsed_time_sec :: "real option"
  reg_type :: string
  residual_prior :: "real option"
  residual_ell2 :: "real option"

type_synonym linop = "nda \<Rightarrow> py_error + nda"

text \<open>
  The methods of the superclass \<open>Solver\<close> and of its helpers that the solver calls.
  Their code is not part of the sources, so they are parameters of the model:
  the masked stacked forward operator \<open>_MA\<close>, its adjoint \<open>_A_adj_M\<close> (which is handed the
  whole augmented vector), the masked observations \<open>_get_M_y()\<close>, the data residual
  \<open>_get_residual_ell2\<close>, the differential operators and their adjoints on the flat volume,
  the table \<open>_get_approximate_solution\<close> of minimizers (bound methods, which read the
  solver), and the two image conversions.
\<close>

record solver_env =
  MA :: "nda \<Rightarrow> nda"
  A_adj_M :: "nda \<Rightarrow> nda"
  get_M_y :: nda
  get_residual_ell2 :: "nda \<Rightarrow> real"
  Dx :: "nda \<Rightarrow> nda"
  Dy :: "nda \<Rightarrow> nda"
  Dz :: "nda \<Rightarrow> nda"
  Dx_adj :: "nda \<Rightarrow> nda"
  Dy_adj :: "nda \<Rightarrow> nda"
  Dz_adj :: "nda \<Rightarrow> nda"
  get_approximate_solution ::
    "string \<rightharpoonup> (tikhonov_solver \<Rightarrow> linop \<Rightarrow> linop \<Rightarrow> nda \<Rightarrow> py_error + nda)"
  get_itk_image_from_array_vec :: "nda \<Rightarrow> nda \<Rightarrow> py_error + nda"
  get_sitk_from_itk_image :: "nda \<Rightarrow> py_error + nda"

text \<open>
  \<open>__init__\<close>: \<open>base\<close> is the object as \<open>Solver.__init__\<close> leaves it; the constructor
  stores the regularization type as it is given and clears both residuals.
\<close>

definition init :: "tikhonov_solver \<Rightarrow> string \<Rightarrow> tikhonov_solver" where
  "init base rt = base\<lparr>reg_type := rt, residual_prior := None, residual_ell2 := None\<rparr>"

text \<open>\<open>set_regularization_type\<close>: the outcome (an exception or none) and the object after it.\<close>

definition set_regularization_type ::
  "tikhonov_solver \<Rightarrow> string \<Rightarrow> py_error option \<times> tikhonov_solver" where
  "set_regularization_type s rt =
     (if rt \<notin> set [''TK0'', ''TK1''] then (Some ValueError, s)
      else (None, s\<lparr>reg_type := rt\<rparr>))"

definition get_regularization_type :: "tikhonov_solver \<Rightarrow> string" where
  "get_regularization_type s = reg_type s"

text \<open>\<open>_get_b\<close>.\<close>

definition get_b :: "solver_env \<Rightarrow> tikhonov_solver \<Rightarrow> nat \<Rightarrow> py_error + nda" where
  "get_b env s N_voxels =
     set_slice (np_zeros N_voxels) (Some 0) (Some (int (N_total_slice_voxels s))) (get_M_y env)"

text \<open>\<open>_A_TK0\<close>.\<close>

definition A_TK0 :: "solver_env \<Rightarrow> tikhonov_solver \<Rightarrow> nda \<Rightarrow> real \<Rightarrow> py_error + nda" where
  "A_TK0 env s HR_nda_vec a =
     (case set_slice (np_zeros (N_total_slice_voxels s + N_voxels_HR_volume s))
             (Some 0) (Some (- int (N_voxels_HR_volume s))) (MA env HR_nda_vec) of
        Inl e \<Rightarrow> Inl e
      | Inr A_x \<Rightarrow>
          set_slice A_x (Some (- int (N_voxels_HR_volume s))) None
            (map (\<lambda>v. sqrt a * v) HR_nda_vec))"

text \<open>\<open>_A_adj_TK0\<close>.\<close>

definition A_adj_TK0 :: "solver_env \<Rightarrow> tikhonov_solver \<Rightarrow> nda \<Rightarrow> real \<Rightarrow> py_error + nda" where
  "A_adj_TK0 env s stacked_slices_nda_vec a =
     np_add (A_adj_M env stacked_slices_nda_vec)
       (map (\<lambda>v. v * sqrt a)
          (get_slice stacked_slices_nda_vec (Some (- int (N_voxels_HR_volume s))) None))"

text \<open>
  Modelled from the spec: \<open>_A_TK1\<close> is a method of the superclass \<open>Solver\<close>, whose code is
  not part of the sources. The specification gives the first-order operator as
  \<open>A(x,alpha) = [MassembleForward(x); sqrt(alpha) Dx(x); sqrt(alpha) Dy(x); sqrt(alpha) Dz(x)]\<close>.
\<close>

definition A_TK1 :: "solver_env \<Rightarrow> tikhonov_solver \<Rightarrow> nda \<Rightarrow> real \<Rightarrow> py_error + nda" where
  "A_TK1 env s x a =
     Inr (MA env x @ map (\<lambda>v. sqrt a * v) (Dx env x) @ map (\<lambda>v. sqrt a * v) (Dy env x)
            @ map (\<lambda>v. sqrt a * v) (Dz env x))"

text \<open>
  Modelled from the spec: \<open>_A_adj_TK1\<close> is a method of the superclass \<open>Solver\<close>, whose code
  is not part of the sources. The specification gives the first-order adjoint as the sum of
  the three directional-derivative adjoints, each scaled by \<open>sqrt(alpha)\<close>, plus the
  data-fit adjoint of the upper block; the three blocks of the regularization part follow
  the order of the forward operator.
\<close>

definition A_adj_TK1 :: "solver_env \<Rightarrow> tikhonov_solver \<Rightarrow> nda \<Rightarrow> real \<Rightarrow> py_error + nda" where
  "A_adj_TK1 env s z a =
     (let Nt = N_total_slice_voxels s; Nv = N_voxels_HR_volume s
      in Inr (map2 (+) (map2 (+) (map2 (+)
                (A_adj_M env (take Nt z))
                (map (\<lambda>v. sqrt a * v) (Dx_adj env (take Nv (drop Nt z)))))
                (map (\<lambda>v. sqrt a * v) (Dy_adj env (take Nv (drop (Nt + Nv) z)))))
                (map (\<lambda>v. sqrt a * v) (Dz_adj env (take Nv (drop (Nt + 2 * Nv) z))))))"

text \<open>The dispatch tables \<open>_A\<close>, \<open>_A_adj\<close> and \<open>_get_residual_prior\<close> of the constructor.\<close>

definition A_table ::
  "solver_env \<Rightarrow> tikhonov_solver \<Rightarrow> string \<rightharpoonup> (nda \<Rightarrow> real \<Rightarrow> py_error + nda)" where
  "A_table env s = [''TK0'' \<mapsto> A_TK0 env s, ''TK1'' \<mapsto> A_TK1 env s]"

definition A_adj_table ::
  "solver_env \<Rightarrow> tikhonov_solver \<Rightarrow> string \<rightharpoonup> (nda \<Rightarrow> real \<Rightarrow> py_error + nda)" where
  "A_adj_table env s = [''TK0'' \<mapsto> A_adj_TK0 env s, ''TK1'' \<mapsto> A_adj_TK1 env s]"

text \<open>\<open>_get_residual_prior_TK0\<close> and \<open>_get_residual_prior_TK1\<close>.\<close>

definition get_residual_prior_TK0 :: "nda \<Rightarrow> real" where
  "get_residual_prior_TK0 HR_nda_vec = sum_sq HR_nda_vec"

definition get_residual_prior_TK1 :: "solver_env \<Rightarrow> nda \<Rightarrow> real" where
  "get_residual_prior_TK1 env HR_nda_vec =
     sum_sq (Dx env HR_nda_vec) + sum_sq (Dy env HR_nda_vec) + sum_sq (Dz env HR_nda_vec)"

definition get_residual_prior_table :: "solver_env \<Rightarrow> string \<rightharpoonup> (nda \<Rightarrow> real)" where
  "get_residual_prior_table env =
     [''TK0'' \<mapsto> get_residual_prior_TK0, ''TK1'' \<mapsto> get_residual_prior_TK1 env]"

text \<open>
  \<open>compute_statistics\<close>: the data residual is stored before the table of prior residuals
  is read.
\<close>

definition compute_statistics ::
  "solver_env \<Rightarrow> tikhonov_solver \<Rightarrow> py_error option \<times> tikhonov_solver" where
  "compute_statistics env s =
     (let HR_nda_vec = sitk (HR_volume s);
          s1 = s\<lparr>residual_ell2 := Some (get_residual_ell2 env HR_nda_vec)\<rparr>
      in case get_residual_prior_table env (reg_type s1) of
           None \<Rightarrow> (Some KeyError, s1)
         | Some f \<Rightarrow> (None, s1\<lparr>residual_prior := Some (f HR_nda_vec)\<rparr>))"

text \<open>\<open>get_final_cost\<close>: the returned value or the exception, and the object after it.\<close>

definition get_final_cost ::
  "solver_env \<Rightarrow> tikhonov_solver \<Rightarrow> (py_error + real) \<times> tikhonov_solver" where
  "get_final_cost env s =
     (let (r, s1) = (if residual_ell2 s = None \<or> residual_prior s = None
                     then compute_statistics env s else (None, s))
      in case r of
           Some e \<Rightarrow> (Inl e, s1)
         | None \<Rightarrow>
             (case (residual_ell2 s1, residual_prior s1) of
                (Some e2, Some pr) \<Rightarrow> (Inr (e2 + alpha s1 * pr), s1)
              | _ \<Rightarrow> (Inl TypeError, s1)))"

text \<open>
  The size of the augmented system that \<open>run_reconstruction\<close> computes first (its local
  variable \<open>N_voxels\<close>).
\<close>

definition run_N_voxels :: "tikhonov_solver \<Rightarrow> nat" where
  "run_N_voxels s =
     (if reg_type s \<in> set [''TK0'']
      then N_total_slice_voxels s + N_voxels_HR_volume s
      else N_total_slice_voxels s + 3 * N_voxels_HR_volume s)"

text \<open>The right-hand side \<open>b\<close> that \<open>run_reconstruction\<close> builds.\<close>

definition run_b :: "solver_env \<Rightarrow> tikhonov_solver \<Rightarrow> py_error + nda" where
  "run_b env s = get_b env s (run_N_voxels s)"

text \<open>The closures \<open>A_fw\<close> and \<open>A_bw\<close>: the table is read when the closure is called.\<close>

definition A_fw :: "solver_env \<Rightarrow> tikhonov_solver \<Rightarrow> linop" where
  "A_fw env s x = (case A_table env s (reg_type s) of
                     None \<Rightarrow> Inl KeyError | Some f \<Rightarrow> f x (alpha s))"

definition A_bw :: "solver_env \<Rightarrow> tikhonov_solver \<Rightarrow> linop" where
  "A_bw env s x = (case A_adj_table env s (reg_type s) of
                     None \<Rightarrow> Inl KeyError | Some f \<Rightarrow> f x (alpha s))"

text \<open>
  The solution vector of a run: the statements of \<open>run_reconstruction\<close> up to and
  including the call of the minimizer (the right-hand side, the lookup of the minimizer in
  its table, the call).
\<close>

definition run_solution :: "solver_env \<Rightarrow> tikhonov_solver \<Rightarrow> py_error + nda" where
  "run_solution env s =
     (case run_b env s of
        Inl e \<Rightarrow> Inl e
      | Inr b \<Rightarrow>
     (case get_approximate_solution env (minimizer s) of
        None \<Rightarrow> Inl KeyError
      | Some solve \<Rightarrow> solve s (A_fw env s) (A_bw env s) b))"

text \<open>
  \<open>run_reconstruction\<close>, with the measured time \<open>t\<close> as an argument. The result is the
  exception that leaves the method, if any, and the object at that moment. The printed
  lines only read attributes and are left out.
\<close>

definition run_reconstruction ::
  "solver_env \<Rightarrow> real \<Rightarrow> tikhonov_solver \<Rightarrow> py_error option \<times> tikhonov_solver" where
  "run_reconstruction env t s =
     (case run_b env s of
        Inl e \<Rightarrow> (Some e, s)
      | Inr b \<Rightarrow>
     (case get_approximate_solution env (minimizer s) of
        None \<Rightarrow> (Some KeyError, s)
      | Some solve \<Rightarrow>
     (case solve s (A_fw env s) (A_bw env s) b of
        Inl e \<Rightarrow> (Some e, s)
      | Inr HR_nda_vec \<Rightarrow>
     (let s1 = s\<lparr>elapsed_time_sec := Some t\<rparr>
      in case get_itk_image_from_array_vec env HR_nda_vec (itk (HR_volume s1)) of
           Inl e \<Rightarrow> (Some e, s1)
         | Inr im \<Rightarrow>
     (let s2 = s1\<lparr>HR_volume := (HR_volume s1)\<lparr>itk := im\<rparr>\<rparr>
      in case get_sitk_from_itk_image env (itk (HR_volume s2)) of
           Inl e \<Rightarrow> (Some e, s2)
         | Inr sim \<Rightarrow> (None, s2\<lparr>HR_volume := (HR_volume s2)\<lparr>sitk := sim\<rparr>\<rparr>))))))"

text \<open>
  \<open>print_statistics\<close>: the exception, if any, and the lines printed before it. A printed
  line is kept as the value it shows, not as formatted text. \<open>timedelta(seconds=...)\<close> and
  the format \<open>%.3e\<close> both raise \<open>TypeError\<close> on \<open>None\<close>.
\<close>

datatype out_line =
  Header string | ElapsedTime real | ResidualEll2 real | ResidualPrior real

definition print_statistics :: "tikhonov_solver \<Rightarrow> py_error option \<times> out_line list" where
  "print_statistics s =
     (case elapsed_time_sec s of
        None \<Rightarrow> (Some TypeError, [Header (reg_type s)])
      | Some t \<Rightarrow>
     (case residual_ell2 s of
        None \<Rightarrow> (Some TypeError, [Header (reg_type s), ElapsedTime t])
      | Some e2 \<Rightarrow>
     (case residual_prior s of
        None \<Rightarrow> (Some TypeError, [Header (reg_type s), ElapsedTime t, ResidualEll2 e2])
      | Some pr \<Rightarrow>
          (None, [Header (reg_type s), ElapsedTime t, ResidualEll2 e2, ResidualPrior pr]))))"

text \<open>\<open>str\<close> of a Python integer.\<close>

definition digit_char :: "nat \<Rightarrow> char" where
  "digit_char d = ''0123456789'' ! d"

function str_nat :: "nat \<Rightarrow> string" where
  "str_nat n = (if n < 10 then [digit_char n] else str_nat (n div 10) @ [digit_char (n mod 10)])"
  by pat_completeness auto
termination
  by (relation "measure id") auto

declare str_nat.simps [simp del]

definition str_int :: "int \<Rightarrow> string" where
  "str_int i = (if i < 0 then CHR ''-'' # str_nat (nat (- i)) else str_nat (nat i))"

text \<open>\<open>s.replace(old, new)\<close> for one-character strings \<open>old\<close> and \<open>new\<close>.\<close>

definition replace_char :: "string \<Rightarrow> char \<Rightarrow> char \<Rightarrow> string" where
  "replace_char s old new = map (\<lambda>c. if c = old then new else c) s"

text \<open>
  \<open>get_setting_specific_filename\<close>. The text that Python's \<open>str\<close> gives for the
  floating-point number \<open>alpha\<close> is a parameter, \<open>str_float\<close>.
\<close>

definition get_setting_specific_filename ::
  "(real \<Rightarrow> string) \<Rightarrow> tikhonov_solver \<Rightarrow> string \<Rightarrow> string" where
  "get_setting_specific_filename str_float s prefix =
     (let filename = prefix;
          filename = filename @ ''_stacks'' @ str_nat (length (stacks s));
          filename = (if alpha s > 0 then filename @ ''_'' @ reg_type s else filename);
          filename = filename @ ''_'' @ minimizer s;
          filename = filename @ ''_alpha'' @ str_float (alpha s);
          filename = filename @ ''_itermax'' @ str_int (iter_max s)
      in replace_char filename CHR ''.'' CHR ''p'')"

section \<open>The registration\<close>

text \<open>
  The attributes of a \<open>Registration\<close> that the residual and its Jacobian read.
  \<open>fixed_voxels\<close> and \<open>nda_mask\<close> exist only once \<open>_initialize_class\<close> has set them.
\<close>

record registration =
  fixed :: stack
  moving :: stack
  use_fixed_mask :: bool
  dof_transform :: nat
  fixed_voxels :: "nat option"
  nda_mask :: "nda option"

text \<open>
  The ITK filters are opaque. The oriented Gaussian filter is given the moving image and
  the transform parameters, and yields the simulated fixed image \<open>A(theta) x\<close> or its
  Jacobian with respect to the spatial coordinates (one row of three entries for each
  voxel); the gradient filter is given the fixed image and the parameters, and yields the
  Jacobian of the transform with respect to its parameters (one matrix of three rows for
  each voxel). Neither is given the mask.
\<close>

record registration_env =
  oriented_gaussian :: "nda \<Rightarrow> real list \<Rightarrow> nda"
  oriented_gaussian_jacobian :: "nda \<Rightarrow> real list \<Rightarrow> real list list"
  gradient_transform :: "nda \<Rightarrow> real list \<Rightarrow> real list list list"

datatype filter_output = Image nda | Jacobian_image "real list list"

text \<open>
  \<open>_initialize_class\<close>, as far as it sets what is read below: the number of voxels of the
  fixed image (the product of its size) and, when the fixed mask is used, the flat mask.
\<close>

definition initialize_class :: "registration \<Rightarrow> registration" where
  "initialize_class r =
     (let r1 = r\<lparr>fixed_voxels := Some (length (sitk (fixed r)))\<rparr>
      in if use_fixed_mask r1 then r1\<lparr>nda_mask := Some (sitk_mask (fixed r1))\<rparr> else r1)"

text \<open>\<open>_execute_oriented_gaussian_interpolate_image_filter\<close>.\<close>

definition execute_oriented_gaussian_interpolate_image_filter ::
  "registration_env \<Rightarrow> registration \<Rightarrow> real list \<Rightarrow> bool \<Rightarrow> filter_output" where
  "execute_oriented_gaussian_interpolate_image_filter env r parameters use_jacobian =
     (if \<not> use_jacobian then Image (oriented_gaussian env (itk (moving r)) parameters)
      else Jacobian_image (oriented_gaussian_jacobian env (itk (moving r)) parameters))"

text \<open>\<open>_get_residual_data_fit\<close>.\<close>

definition get_residual_data_fit ::
  "registration_env \<Rightarrow> registration \<Rightarrow> real list \<Rightarrow> py_error + nda" where
  "get_residual_data_fit env r parameters =
     (case execute_oriented_gaussian_interpolate_image_filter env r parameters False of
        Jacobian_image j \<Rightarrow> Inl TypeError
      | Image nda_Ak_vol \<Rightarrow>
     (case np_sub (sitk (fixed r)) nda_Ak_vol of
        Inl e \<Rightarrow> Inl e
      | Inr residual \<Rightarrow>
          if use_fixed_mask r
          then (case nda_mask r of
                  None \<Rightarrow> Inl AttributeError
                | Some m \<Rightarrow> np_mul residual m)
          else Inr residual))"

text \<open>\<open>v.dot(M)\<close> for a vector and a matrix given by its rows.\<close>

definition vec_mat :: "real list \<Rightarrow> real list list \<Rightarrow> real list" where
  "vec_mat v M = map (\<lambda>col. dot v col) (transpose M)"

text \<open>\<open>row[:] = v\<close> for a row of \<open>d\<close> entries.\<close>

definition assign_row :: "nat \<Rightarrow> real list \<Rightarrow> py_error + real list" where
  "assign_row d v =
     (if length v = d then Inr v
      else if length v = 1 then Inr (replicate d (hd v))
      else Inl ValueError)"

text \<open>The loop that fills the rows of the Jacobian, over the indices still to do.\<close>

fun jacobian_rows ::
  "nat \<Rightarrow> real list list \<Rightarrow> real list list list \<Rightarrow> nat list \<Rightarrow> py_error + real list list" where
  "jacobian_rows d gf gt [] = Inr []"
| "jacobian_rows d gf gt (i # idx) =
     (if i < length gf \<and> i < length gt
      then (case assign_row d (vec_mat (gf ! i) (gt ! i)) of
              Inl e \<Rightarrow> Inl e
            | Inr row \<Rightarrow>
                (case jacobian_rows d gf gt idx of
                   Inl e \<Rightarrow> Inl e
                 | Inr rows \<Rightarrow> Inr (row # rows)))
      else Inl IndexError)"

text \<open>\<open>J * m[:, np.newaxis]\<close>: every row of the matrix times the entry of \<open>m\<close> of its index.\<close>

definition mul_rows :: "real list list \<Rightarrow> nda \<Rightarrow> py_error + real list list" where
  "mul_rows J m =
     (if length m = length J then Inr (map2 (\<lambda>row c. map (\<lambda>v. v * c) row) J m)
      else if length m = 1 then Inr (map (\<lambda>row. map (\<lambda>v. v * hd m) row) J)
      else if length J = 1 then Inr (map (\<lambda>c. map (\<lambda>v. v * c) (hd J)) m)
      else Inl ValueError)"

text \<open>\<open>_get_jacobian_residual_data_fit\<close>.\<close>

definition get_jacobian_residual_data_fit ::
  "registration_env \<Rightarrow> registration \<Rightarrow> real list \<Rightarrow> py_error + real list list" where
  "get_jacobian_residual_data_fit env r parameters =
     (case fixed_voxels r of
        None \<Rightarrow> Inl AttributeError
      | Some n \<Rightarrow>
     (case execute_oriented_gaussian_interpolate_image_filter env r parameters True of
        Image a \<Rightarrow> Inl TypeError
      | Jacobian_image nda_gradient_filter_vec \<Rightarrow>
          if length parameters < dof_transform r then Inl IndexError
          else
     (case jacobian_rows (dof_transform r) nda_gradient_filter_vec
             (gradient_transform env (itk (fixed r)) parameters) [0..<n] of
        Inl e \<Rightarrow> Inl e
      | Inr jacobian_nda \<Rightarrow>
     (case (if use_fixed_mask r
            then (case nda_mask r of
                    None \<Rightarrow> Inl AttributeError
                  | Some m \<Rightarrow> mul_rows jacobian_nda m)
            else Inr jacobian_nda) of
        Inl e \<Rightarrow> Inl e
      | Inr J \<Rightarrow> Inr (map (map uminus) J)))))"

section \<open>A small instance\<close>

text \<open>
  One stack of one slice with two voxels, a volume of two voxels, an identity forward
  model and a minimizer that adds one to every voxel of the current estimate.
\<close>

definition example_env :: solver_env where
  "example_env =
     \<lparr>MA = (\<lambda>x. x), A_adj_M = take 2, get_M_y = [5, 7],
      get_residual_ell2 = (\<lambda>x. sum_sq (map2 (-) [5, 7] x)),
      Dx = (\<lambda>x. x), Dy = (\<lambda>x. x), Dz = (\<lambda>x. x),
      Dx_adj = (\<lambda>x. x), Dy_adj = (\<lambda>x. x), Dz_adj = (\<lambda>x. x),
      get_approximate_solution =
        [''lsmr'' \<mapsto> (\<lambda>s fw bw b. Inr (map (\<lambda>v. v + 1) (sitk (HR_volume s))))],
      get_itk_image_from_array_vec = (\<lambda>v ref. Inr v),
      get_sitk_from_itk_image = Inr\<rparr>"

definition example_solver :: tikhonov_solver where
  "example_solver =
     \<lparr>stacks = [\<lparr>itk = [5, 7], sitk = [5, 7], sitk_mask = [1, 1]\<rparr>],
      HR_volume = \<lparr>itk = [1, 2], sitk = [1, 2], sitk_mask = [1, 1]\<rparr>,
      alpha = 4, iter_max = 10, minimizer = ''lsmr'',
      N_total_slice_voxels = 2, N_voxels_HR_volume = 2, elapsed_time_sec = None,
      reg_type = ''TK0'', residual_prior = None, residual_ell2 = None\<rparr>"

text \<open>A run, a query of the final cost, and a second run.\<close>

definition after_first_run :: tikhonov_solver where
  "after_first_run = snd (run_reconstruction example_env 1 example_solver)"

definition after_first_cost :: tikhonov_solver where
  "after_first_cost = snd (get_final_cost example_env after_first_run)"

definition after_second_run :: tikhonov_solver where
  "after_second_run = snd (run_reconstruction example_env 1 after_first_cost)"

text \<open>The same two runs without the query in between.\<close>

definition after_two_runs :: tikhonov_solver where
  "after_two_runs = snd (run_reconstruction example_env 1 after_first_run)"

text \<open>The text of three values of \<open>alpha\<close>.\<close>

definition example_str_float :: "real \<Rightarrow> string" where
  "example_str_float a =
     (if a = 4 then ''4.0'' else if a = 3 / 100 then ''0.03'' else ''0.0'')"

text \<open>
  A fixed slice of two voxels, the second one masked out, and filters whose output does
  not depend on the parameters.
\<close>

definition example_registration_env :: registration_env where
  "example_registration_env =
     \<lparr>oriented_gaussian = (\<lambda>x theta. x),
      oriented_gaussian_jacobian = (\<lambda>x theta. [[1, 0, 0], [0, 1, 0]]),
      gradient_transform =
        (\<lambda>y theta. [[[1, 2], [3, 4], [5, 6]], [[1, 2], [3, 4], [5, 6]]])\<rparr>"

definition example_registration :: registration where
  "example_registration =
     \<lparr>fixed = \<lparr>itk = [5, 7], sitk = [5, 7], sitk_mask = [1, 0]\<rparr>,
      moving = \<lparr>itk = [1, 2], sitk = [1, 2], sitk_mask = [1, 1]\<rparr>,
      use_fixed_mask = True, dof_transform = 2,
      fixed_voxels = None, nda_mask = None\<rparr>"

section \<open>Shape of the operators\<close>

lemma slice_index_simps:
  "slice_index n None d = d"
  "slice_index n (Some 0) d = 0"
  "slice_index n (Some (int k)) d = min n k"
  "0 < k \<Longrightarrow> slice_index n (Some (- int k)) d = n - k"
  by (auto simp: slice_index_def)

lemma A_TK0_eq:
  assumes "0 < N_voxels_HR_volume s" "length x = N_voxels_HR_volume s"
    "length (MA env x) = N_total_slice_voxels s"
  shows "A_TK0 env s x a = Inr (MA env x @ map (\<lambda>v. sqrt a * v) x)"
  using assms
  by (simp add: A_TK0_def set_slice_def np_zeros_def slice_index_simps Let_def)

lemma A_adj_TK0_eq:
  assumes "0 < N_voxels_HR_volume s"
    "length z = N_total_slice_voxels s + N_voxels_HR_volume s"
    "length (A_adj_M env z) = N_voxels_HR_volume s"
  shows "A_adj_TK0 env s z a =
           Inr (map2 (+) (A_adj_M env z)
                  (map (\<lambda>v. v * sqrt a) (drop (N_total_slice_voxels s) z)))"
  using assms
  by (simp add: A_adj_TK0_def get_slice_def np_add_def np_binop_def slice_index_simps Let_def)

lemma get_b_eq:
  assumes "length (get_M_y env) = N_total_slice_voxels s" "N_total_slice_voxels s \<le> N"
  shows "get_b env s N = Inr (get_M_y env @ replicate (N - N_total_slice_voxels s) 0)"
  using assms
  by (simp add: get_b_def set_slice_def np_zeros_def slice_index_simps Let_def)

text \<open>
  C2. For a volume vector \<open>x\<close> (of the \<open>N_voxels\<close> voxels of a non-empty volume) and
  \<open>alpha \<ge> 0\<close>, the zeroth-order forward operator returns the concatenation of
  \<open>MA(x)\<close> and \<open>sqrt(alpha) x\<close>, of length \<open>N_total_slice_voxels + N_voxels\<close>. The
  zeroth-order adjoint returns \<open>A_adj_M\<close> of its argument plus \<open>sqrt(alpha)\<close> times the
  last \<open>N_voxels\<close> entries; the code hands \<open>A_adj_M\<close> the whole augmented vector, so this is
  the data-fit adjoint of the upper block when \<open>A_adj_M\<close> reads the upper block only. With
  \<open>alpha = 0\<close> the regularization block is present and all zero, for the zeroth-order
  operator and for the first-order operator of the specification.
\<close>

theorem C2_operator_blocks:
  assumes "0 \<le> a"
    and "0 < N_voxels_HR_volume s"
    and "length x = N_voxels_HR_volume s"
    and "length (MA env x) = N_total_slice_voxels s"
    and "length z = N_total_slice_voxels s + N_voxels_HR_volume s"
    and "length (A_adj_M env z) = N_voxels_HR_volume s"
    and "A_adj_M env z = A_adj_M env (take (N_total_slice_voxels s) z)"
    and "length (Dx env x) = N_voxels_HR_volume s"
    and "length (Dy env x) = N_voxels_HR_volume s"
    and "length (Dz env x) = N_voxels_HR_volume s"
  shows "A_TK0 env s x a = Inr (MA env x @ map (\<lambda>v. sqrt a * v) x)
       \<and> length (MA env x @ map (\<lambda>v. sqrt a * v) x)
           = N_total_slice_voxels s + N_voxels_HR_volume s
       \<and> A_adj_TK0 env s z a =
           Inr (map2 (+) (A_adj_M env (take (N_total_slice_voxels s) z))
                  (map (\<lambda>v. v * sqrt a) (drop (length z - N_voxels_HR_volume s) z)))
       \<and> A_TK0 env s x 0 = Inr (MA env x @ replicate (N_voxels_HR_volume s) 0)
       \<and> A_TK1 env s x 0 = Inr (MA env x @ replicate (3 * N_voxels_HR_volume s) 0)"
proof -
  have fw: "A_TK0 env s x a = Inr (MA env x @ map (\<lambda>v. sqrt a * v) x)" for a
    using assms(2-4) by (rule A_TK0_eq)
  have len: "length (MA env x @ map (\<lambda>v. sqrt a * v) x)
               = N_total_slice_voxels s + N_voxels_HR_volume s"
    using assms(3,4) by simp
  have "drop (length z - N_voxels_HR_volume s) z = drop (N_total_slice_voxels s) z"
    using assms(5) by simp
  then have bw: "A_adj_TK0 env s z a =
           Inr (map2 (+) (A_adj_M env (take (N_total_slice_voxels s) z))
                  (map (\<lambda>v. v * sqrt a) (drop (length z - N_voxels_HR_volume s) z)))"
    using A_adj_TK0_eq [OF assms(2,5,6), of a] assms(7) by simp
  have z0: "A_TK0 env s x 0 = Inr (MA env x @ replicate (N_voxels_HR_volume s) 0)"
    using fw [of 0] assms(3) by (simp add: map_replicate_const)
  have "map (\<lambda>v. sqrt 0 * v) (Dx env x) @ map (\<lambda>v. sqrt 0 * v) (Dy env x)
          @ map (\<lambda>v. sqrt 0 * v) (Dz env x) = replicate (3 * N_voxels_HR_volume s) 0"
    using assms(8-10) by (simp add: map_replicate_const flip: replicate_add)
  then have z1: "A_TK1 env s x 0 = Inr (MA env x @ replicate (3 * N_voxels_HR_volume s) 0)"
    by (simp add: A_TK1_def)
  from fw [of a] len bw z0 z1 show ?thesis by blast
qed

theorem C2_operator_blocks_witness:
  "A_TK0 example_env example_solver [1, 2] 4 = Inr [1, 2, 2, 4]
   \<and> A_adj_TK0 example_env example_solver [3, 4, 5, 6] 4 = Inr [13, 16]
   \<and> A_TK0 example_env example_solver [1, 2] 0 = Inr [1, 2, 0, 0]
   \<and> A_TK1 example_env example_solver [1, 2] 0 = Inr [1, 2, 0, 0, 0, 0, 0, 0]"
proof -
  have h: "length [1, 2 :: real] = N_voxels_HR_volume example_solver"
    "0 < N_voxels_HR_volume example_solver"
    "length (MA example_env [1, 2]) = N_total_slice_voxels example_solver"
    "length [3, 4, 5, 6 :: real] = N_total_slice_voxels example_solver + N_voxels_HR_volume example_solver"
    "length (A_adj_M example_env [3, 4, 5, 6]) = N_voxels_HR_volume example_solver"
    "A_adj_M example_env [3, 4, 5, 6] = A_adj_M example_env (take (N_total_slice_voxels example_solver) [3, 4, 5, 6])"
    "length (Dx example_env [1, 2]) = N_voxels_HR_volume example_solver"
    "length (Dy example_env [1, 2]) = N_voxels_HR_volume example_solver"
    "length (Dz example_env [1, 2]) = N_voxels_HR_volume example_solver"
    by (simp_all add: example_env_def example_solver_def)
  have a: "(0::real) \<le> 4" by simp
  show ?thesis
    using C2_operator_blocks [OF a h(2) h(1) h(3) h(4) h(5) h(6) h(7) h(8) h(9)]
    by (simp add: example_env_def example_solver_def eval_nat_numeral)
qed

text \<open>
  C3. The right-hand side \<open>b\<close> of a reconstruction run consists of the masked stacked
  observations \<open>M y\<close>, in its first \<open>N_total_slice_voxels\<close> entries, followed by zeros
  only: \<open>N_voxels\<close> of them for \<open>TK0\<close> and \<open>3 N_voxels\<close> of them for \<open>TK1\<close>.
\<close>

theorem C3_rhs_blocks:
  assumes "length (get_M_y env) = N_total_slice_voxels s"
  shows "run_b env s =
           Inr (get_M_y env @
                replicate (if reg_type s = ''TK0'' then N_voxels_HR_volume s
                           else 3 * N_voxels_HR_volume s) 0)
       \<and> take (N_total_slice_voxels s)
             (get_M_y env @
                replicate (if reg_type s = ''TK0'' then N_voxels_HR_volume s
                           else 3 * N_voxels_HR_volume s) 0) = get_M_y env"
  using assms get_b_eq [OF assms, of "run_N_voxels s"]
  by (simp add: run_b_def run_N_voxels_def)

theorem C3_rhs_blocks_witness:
  "run_b example_env example_solver = Inr [5, 7, 0, 0]
   \<and> run_b example_env (example_solver\<lparr>reg_type := ''TK1''\<rparr>) = Inr [5, 7, 0, 0, 0, 0, 0, 0]"
  using C3_rhs_blocks [of example_env example_solver]
    C3_rhs_blocks [of example_env "example_solver\<lparr>reg_type := ''TK1''\<rparr>"]
  by (simp add: example_env_def example_solver_def eval_nat_numeral)

section \<open>Adjointness of the augmented operators\<close>

lemma dot_append:
  "length a = length c \<Longrightarrow> dot (a @ b) (c @ d) = dot a c + dot b d"
  by (simp add: dot_def)

lemma dot_scale_left: "dot (map (\<lambda>v. k * v) u) w = k * dot u w"
proof (induction u arbitrary: w)
  case Nil
  show ?case by (simp add: dot_def)
next
  case (Cons h u)
  then show ?case by (cases w) (simp_all add: dot_def algebra_simps)
qed

lemma dot_scale_right: "dot u (map (\<lambda>v. k * v) w) = k * dot u w"
proof (induction u arbitrary: w)
  case Nil
  show ?case by (simp add: dot_def)
next
  case (Cons h u)
  then show ?case by (cases w) (simp_all add: dot_def algebra_simps)
qed

lemma dot_scale_right': "dot u (map (\<lambda>v. v * k) w) = k * dot u w"
  using dot_scale_right [of u k w] by (simp add: mult.commute)

lemma dot_add_right:
  "length u = length p \<Longrightarrow> length p = length q \<Longrightarrow>
   dot u (map2 (+) p q) = dot u p + dot u q"
  by (induction u p q rule: list_induct3) (simp_all add: dot_def algebra_simps)

lemma dot_split:
  "n \<le> length z \<Longrightarrow> length a = n \<Longrightarrow> dot (a @ b) z = dot a (take n z) + dot b (drop n z)"
  using dot_append [of a "take n z" b "drop n z"] by simp

lemma adjoint_TK0:
  assumes Nv: "0 < N_voxels_HR_volume s"
    and x: "length x = N_voxels_HR_volume s"
    and z: "length z = N_total_slice_voxels s + N_voxels_HR_volume s"
    and fit: "\<And>u v. length u = N_voxels_HR_volume s \<Longrightarrow> length v = N_total_slice_voxels s \<Longrightarrow>
               length (MA env u) = N_total_slice_voxels s \<and>
               length (A_adj_M env v) = N_voxels_HR_volume s \<and>
               dot (MA env u) v = dot u (A_adj_M env v)"
    and upper: "A_adj_M env z = A_adj_M env (take (N_total_slice_voxels s) z)"
  shows "\<exists>Ax Az. A_TK0 env s x a = Inr Ax \<and> A_adj_TK0 env s z a = Inr Az \<and> dot Ax z = dot x Az"
proof -
  let ?Nt = "N_total_slice_voxels s"
  let ?u = "take ?Nt z" and ?l = "drop ?Nt z"
  have lu: "length ?u = ?Nt" using z by simp
  have ll: "length ?l = N_voxels_HR_volume s" using z by simp
  note f = fit [OF x lu]
  have lz: "length (A_adj_M env z) = N_voxels_HR_volume s" using f upper by simp
  have fw: "A_TK0 env s x a = Inr (MA env x @ map (\<lambda>v. sqrt a * v) x)"
    using Nv x f by (simp add: A_TK0_eq)
  have bw: "A_adj_TK0 env s z a = Inr (map2 (+) (A_adj_M env z) (map (\<lambda>v. v * sqrt a) ?l))"
    using Nv z lz by (rule A_adj_TK0_eq)
  have "dot (MA env x @ map (\<lambda>v. sqrt a * v) x) z
          = dot (MA env x) ?u + dot (map (\<lambda>v. sqrt a * v) x) ?l"
    using f z by (intro dot_split) simp_all
  also have "\<dots> = dot x (A_adj_M env z) + sqrt a * dot x ?l"
    using f upper by (simp add: dot_scale_left)
  also have "\<dots> = dot x (map2 (+) (A_adj_M env z) (map (\<lambda>v. v * sqrt a) ?l))"
    using x lz ll by (simp add: dot_add_right dot_scale_right')
  finally show ?thesis using fw bw by blast
qed


lemma adjoint_TK1:
  assumes x: "length x = N_voxels_HR_volume s"
    and z: "length z = N_total_slice_voxels s + 3 * N_voxels_HR_volume s"
    and fit: "\<And>u v. length u = N_voxels_HR_volume s \<Longrightarrow> length v = N_total_slice_voxels s \<Longrightarrow>
               length (MA env u) = N_total_slice_voxels s \<and>
               length (A_adj_M env v) = N_voxels_HR_volume s \<and>
               dot (MA env u) v = dot u (A_adj_M env v)"
    and dx: "\<And>u v. length u = N_voxels_HR_volume s \<Longrightarrow> length v = N_voxels_HR_volume s \<Longrightarrow>
               length (Dx env u) = N_voxels_HR_volume s \<and>
               length (Dx_adj env v) = N_voxels_HR_volume s \<and>
               dot (Dx env u) v = dot u (Dx_adj env v)"
    and dy: "\<And>u v. length u = N_voxels_HR_volume s \<Longrightarrow> length v = N_voxels_HR_volume s \<Longrightarrow>
               length (Dy env u) = N_voxels_HR_volume s \<and>
               length (Dy_adj env v) = N_voxels_HR_volume s \<and>
               dot (Dy env u) v = dot u (Dy_adj env v)"
    and dz: "\<And>u v. length u = N_voxels_HR_volume s \<Longrightarrow> length v = N_voxels_HR_volume s \<Longrightarrow>
               length (Dz env u) = N_voxels_HR_volume s \<and>
               length (Dz_adj env v) = N_voxels_HR_volume s \<and>
               dot (Dz env u) v = dot u (Dz_adj env v)"
  shows "\<exists>Ax Az. A_TK1 env s x a = Inr Ax \<and> A_adj_TK1 env s z a = Inr Az \<and> dot Ax z = dot x Az"
proof -
  let ?Nt = "N_total_slice_voxels s" and ?Nv = "N_voxels_HR_volume s"
  let ?k = "\<lambda>v. sqrt a * v"
  let ?zu = "take ?Nt z"
  let ?z1 = "take ?Nv (drop ?Nt z)"
  let ?z2 = "take ?Nv (drop (?Nt + ?Nv) z)"
  let ?z3 = "take ?Nv (drop (?Nt + 2 * ?Nv) z)"
  have lzu: "length ?zu = ?Nt" and lz1: "length ?z1 = ?Nv"
    and lz2: "length ?z2 = ?Nv" and lz3: "length ?z3 = ?Nv"
    using z by simp_all
  note f = fit [OF x lzu] and f1 = dx [OF x lz1] and f2 = dy [OF x lz2] and f3 = dz [OF x lz3]
  have d1: "drop ?Nv (drop ?Nt z) = drop (?Nt + ?Nv) z"
    by (simp add: ac_simps)
  have d2: "drop ?Nv (drop (?Nt + ?Nv) z) = drop (?Nt + 2 * ?Nv) z"
  proof -
    have "?Nv + (?Nt + ?Nv) = ?Nt + 2 * ?Nv" by arith
    then show ?thesis by (simp only: drop_drop)
  qed
  have d3: "drop (?Nt + 2 * ?Nv) z = ?z3"
    using z by simp
  have s3: "dot (map ?k (Dz env x)) (drop (?Nt + 2 * ?Nv) z) = sqrt a * dot x (Dz_adj env ?z3)"
    using f3 by (simp add: dot_scale_left flip: d3)
  have "dot (map ?k (Dy env x) @ map ?k (Dz env x)) (drop (?Nt + ?Nv) z)
          = dot (map ?k (Dy env x)) ?z2 + dot (map ?k (Dz env x)) (drop ?Nv (drop (?Nt + ?Nv) z))"
    using f2 z by (intro dot_split) simp_all
  then have s2: "dot (map ?k (Dy env x) @ map ?k (Dz env x)) (drop (?Nt + ?Nv) z)
          = sqrt a * dot x (Dy_adj env ?z2) + sqrt a * dot x (Dz_adj env ?z3)"
    using f2 s3 by (simp only: d2 dot_scale_left)
  have "dot (map ?k (Dx env x) @ map ?k (Dy env x) @ map ?k (Dz env x)) (drop ?Nt z)
          = dot (map ?k (Dx env x)) ?z1
            + dot (map ?k (Dy env x) @ map ?k (Dz env x)) (drop ?Nv (drop ?Nt z))"
    using f1 z by (intro dot_split) simp_all
  then have s1: "dot (map ?k (Dx env x) @ map ?k (Dy env x) @ map ?k (Dz env x)) (drop ?Nt z)
          = sqrt a * dot x (Dx_adj env ?z1) + sqrt a * dot x (Dy_adj env ?z2)
            + sqrt a * dot x (Dz_adj env ?z3)"
    using f1 s2 by (simp only: d1 dot_scale_left)
  have "dot (MA env x @ map ?k (Dx env x) @ map ?k (Dy env x) @ map ?k (Dz env x)) z
          = dot (MA env x) ?zu
            + dot (map ?k (Dx env x) @ map ?k (Dy env x) @ map ?k (Dz env x)) (drop ?Nt z)"
    using f z by (intro dot_split) simp_all
  then have lhs: "dot (MA env x @ map ?k (Dx env x) @ map ?k (Dy env x) @ map ?k (Dz env x)) z
          = dot x (A_adj_M env ?zu) + sqrt a * dot x (Dx_adj env ?z1)
            + sqrt a * dot x (Dy_adj env ?z2) + sqrt a * dot x (Dz_adj env ?z3)"
    using f s1 by simp
  have rhs: "dot x (map2 (+) (map2 (+) (map2 (+) (A_adj_M env ?zu) (map ?k (Dx_adj env ?z1)))
                 (map ?k (Dy_adj env ?z2))) (map ?k (Dz_adj env ?z3)))
          = dot x (A_adj_M env ?zu) + sqrt a * dot x (Dx_adj env ?z1)
            + sqrt a * dot x (Dy_adj env ?z2) + sqrt a * dot x (Dz_adj env ?z3)"
    using x f f1 f2 f3 by (simp add: dot_add_right dot_scale_right)
  show ?thesis
    using lhs rhs by (simp add: A_TK1_def A_adj_TK1_def Let_def)
qed


text \<open>
  C1. For every volume vector \<open>x\<close>, every augmented vector \<open>z\<close> of matching size and
  every \<open>alpha \<ge> 0\<close>, the augmented forward and adjoint maps satisfy
  \<open><A(x, alpha), z> = <x, A_adj(z, alpha)>\<close>, for the zeroth-order pair of the code and
  for the first-order pair of the specification, when \<open>MA\<close> and \<open>A_adj_M\<close> are adjoint
  (\<open>A_adj_M\<close> reading only the upper block of the whole vector it is handed) and, for the
  first-order pair, the differential operators satisfy the adjoint identity that the
  specification requires of them.
\<close>

theorem C1_augmented_adjoint:
  assumes "0 \<le> a"
    and "0 < N_voxels_HR_volume s"
    and "length x = N_voxels_HR_volume s"
    and "length z0 = N_total_slice_voxels s + N_voxels_HR_volume s"
    and "length z1 = N_total_slice_voxels s + 3 * N_voxels_HR_volume s"
    and "\<And>u v. length u = N_voxels_HR_volume s \<Longrightarrow> length v = N_total_slice_voxels s \<Longrightarrow>
               length (MA env u) = N_total_slice_voxels s \<and>
               length (A_adj_M env v) = N_voxels_HR_volume s \<and>
               dot (MA env u) v = dot u (A_adj_M env v)"
    and "A_adj_M env z0 = A_adj_M env (take (N_total_slice_voxels s) z0)"
    and "\<And>u v. length u = N_voxels_HR_volume s \<Longrightarrow> length v = N_voxels_HR_volume s \<Longrightarrow>
               length (Dx env u) = N_voxels_HR_volume s \<and>
               length (Dx_adj env v) = N_voxels_HR_volume s \<and>
               dot (Dx env u) v = dot u (Dx_adj env v)"
    and "\<And>u v. length u = N_voxels_HR_volume s \<Longrightarrow> length v = N_voxels_HR_volume s \<Longrightarrow>
               length (Dy env u) = N_voxels_HR_volume s \<and>
               length (Dy_adj env v) = N_voxels_HR_volume s \<and>
               dot (Dy env u) v = dot u (Dy_adj env v)"
    and "\<And>u v. length u = N_voxels_HR_volume s \<Longrightarrow> length v = N_voxels_HR_volume s \<Longrightarrow>
               length (Dz env u) = N_voxels_HR_volume s \<and>
               length (Dz_adj env v) = N_voxels_HR_volume s \<and>
               dot (Dz env u) v = dot u (Dz_adj env v)"
  shows "(\<exists>Ax Az. A_TK0 env s x a = Inr Ax \<and> A_adj_TK0 env s z0 a = Inr Az
                  \<and> dot Ax z0 = dot x Az)
       \<and> (\<exists>Ax Az. A_TK1 env s x a = Inr Ax \<and> A_adj_TK1 env s z1 a = Inr Az
                  \<and> dot Ax z1 = dot x Az)"
proof
  show "\<exists>Ax Az. A_TK0 env s x a = Inr Ax \<and> A_adj_TK0 env s z0 a = Inr Az \<and> dot Ax z0 = dot x Az"
    using assms(2-4) assms(6,7) by (rule adjoint_TK0)
  show "\<exists>Ax Az. A_TK1 env s x a = Inr Ax \<and> A_adj_TK1 env s z1 a = Inr Az \<and> dot Ax z1 = dot x Az"
    using assms(3,5,6) assms(8-10) by (rule adjoint_TK1)
qed

theorem C1_augmented_adjoint_witness:
  "(\<exists>Ax Az. A_TK0 example_env example_solver [1, 2] 4 = Inr Ax
            \<and> A_adj_TK0 example_env example_solver [3, 4, 5, 6] 4 = Inr Az
            \<and> dot Ax [3, 4, 5, 6] = dot [1, 2] Az)
   \<and> (\<exists>Ax Az. A_TK1 example_env example_solver [1, 2] 4 = Inr Ax
            \<and> A_adj_TK1 example_env example_solver [3, 4, 5, 6, 7, 8, 9, 10] 4 = Inr Az
            \<and> dot Ax [3, 4, 5, 6, 7, 8, 9, 10] = dot [1, 2] Az)"
proof (rule C1_augmented_adjoint)
  show "(0::real) \<le> 4" by simp
  show "0 < N_voxels_HR_volume example_solver" by (simp add: example_solver_def)
  show "length [1, 2 :: real] = N_voxels_HR_volume example_solver"
    by (simp add: example_solver_def)
  show "length [3, 4, 5, 6 :: real]
          = N_total_slice_voxels example_solver + N_voxels_HR_volume example_solver"
    by (simp add: example_solver_def)
  show "length [3, 4, 5, 6, 7, 8, 9, 10 :: real]
          = N_total_slice_voxels example_solver + 3 * N_voxels_HR_volume example_solver"
    by (simp add: example_solver_def)
  show "A_adj_M example_env [3, 4, 5, 6]
          = A_adj_M example_env (take (N_total_slice_voxels example_solver) [3, 4, 5, 6])"
    by (simp add: example_env_def example_solver_def)
qed (simp_all add: example_env_def example_solver_def)

section \<open>Reconstruction runs and statistics\<close>

lemma run_reconstruction_residuals:
  "residual_ell2 (snd (run_reconstruction env t s)) = residual_ell2 s
   \<and> residual_prior (snd (run_reconstruction env t s)) = residual_prior s
   \<and> alpha (snd (run_reconstruction env t s)) = alpha s
   \<and> reg_type (snd (run_reconstruction env t s)) = reg_type s"
  by (simp add: run_reconstruction_def Let_def split: sum.splits option.splits)

lemma compute_statistics_eq:
  assumes "reg_type s = ''TK0'' \<or> reg_type s = ''TK1''"
  shows "compute_statistics env s =
           (None, s\<lparr>residual_ell2 := Some (get_residual_ell2 env (sitk (HR_volume s))),
                    residual_prior :=
                      Some (if reg_type s = ''TK0'' then sum_sq (sitk (HR_volume s))
                            else sum_sq (Dx env (sitk (HR_volume s)))
                               + sum_sq (Dy env (sitk (HR_volume s)))
                               + sum_sq (Dz env (sitk (HR_volume s))))\<rparr>)"
  using assms
  by (auto simp: compute_statistics_def Let_def get_residual_prior_table_def
        get_residual_prior_TK0_def get_residual_prior_TK1_def)

lemma get_final_cost_cached:
  assumes "residual_ell2 s = Some e2" "residual_prior s = Some pr"
  shows "get_final_cost env s = (Inr (e2 + alpha s * pr), s)"
  using assms by (simp add: get_final_cost_def)

lemma get_final_cost_fresh:
  assumes "reg_type s = ''TK0'' \<or> reg_type s = ''TK1''"
    and "residual_ell2 s = None \<or> residual_prior s = None"
  shows "get_final_cost env s =
           (Inr (get_residual_ell2 env (sitk (HR_volume s))
                 + alpha s * (if reg_type s = ''TK0'' then sum_sq (sitk (HR_volume s))
                            else sum_sq (Dx env (sitk (HR_volume s)))
                               + sum_sq (Dy env (sitk (HR_volume s)))
                               + sum_sq (Dz env (sitk (HR_volume s))))),
            snd (compute_statistics env s))"
  using assms(2) by (simp add: get_final_cost_def compute_statistics_eq [OF assms(1)])

text \<open>
  C4. When a run fails before the minimizer has returned a solution vector (the
  right-hand side cannot be built, the minimizer name is not in the table, or the minimizer
  itself raises), the run leaves the object as it was; in particular the HR volume is
  unchanged.
\<close>

theorem C4_failed_run_keeps_volume:
  assumes "run_solution env s = Inl e"
  shows "run_reconstruction env t s = (Some e, s)
       \<and> HR_volume (snd (run_reconstruction env t s)) = HR_volume s"
  using assms
  by (auto simp: run_solution_def run_reconstruction_def split: sum.splits option.splits)

theorem C4_failed_run_keeps_volume_witness:
  "run_solution example_env (example_solver\<lparr>minimizer := ''foo''\<rparr>) = Inl KeyError
   \<and> run_reconstruction example_env 1 (example_solver\<lparr>minimizer := ''foo''\<rparr>)
       = (Some KeyError, example_solver\<lparr>minimizer := ''foo''\<rparr>)
   \<and> HR_volume (snd (run_reconstruction example_env 1 (example_solver\<lparr>minimizer := ''foo''\<rparr>)))
       = \<lparr>itk = [1, 2], sitk = [1, 2], sitk_mask = [1, 1]\<rparr>"
proof -
  have b: "run_b example_env (example_solver\<lparr>minimizer := ''foo''\<rparr>) = Inr [5, 7, 0, 0]"
    by (simp add: run_b_def run_N_voxels_def get_b_eq example_env_def example_solver_def
          eval_nat_numeral)
  have h: "run_solution example_env (example_solver\<lparr>minimizer := ''foo''\<rparr>) = Inl KeyError"
    by (simp add: run_solution_def b) (simp add: example_env_def example_solver_def)
  show ?thesis
    using h C4_failed_run_keeps_volume [OF h, of 1] by (simp add: example_solver_def)
qed

text \<open>
  C6. With a regularization type of the table, \<open>compute_statistics\<close> stores the data
  residual and the prior residual (the sum of squares of \<open>x\<close> for \<open>TK0\<close>, of the three
  directional derivatives for \<open>TK1\<close>); afterwards \<open>get_final_cost\<close> returns exactly
  \<open>residual_ell2 + alpha * residual_prior\<close>. When one of the two residuals is not cached,
  \<open>get_final_cost\<close> runs \<open>compute_statistics\<close> first and returns the same sum.
\<close>

theorem C6_final_cost:
  assumes "reg_type s = ''TK0'' \<or> reg_type s = ''TK1''"
    and "x = sitk (HR_volume s)"
    and "pr = (if reg_type s = ''TK0'' then sum_sq x
               else sum_sq (Dx env x) + sum_sq (Dy env x) + sum_sq (Dz env x))"
    and "s' = snd (compute_statistics env s)"
  shows "fst (compute_statistics env s) = None
       \<and> residual_ell2 s' = Some (get_residual_ell2 env x)
       \<and> residual_prior s' = Some pr
       \<and> get_final_cost env s' = (Inr (get_residual_ell2 env x + alpha s * pr), s')
       \<and> (if residual_ell2 s = None \<or> residual_prior s = None
          then get_final_cost env s = (Inr (get_residual_ell2 env x + alpha s * pr), s')
          else get_final_cost env s
                 = (Inr (the (residual_ell2 s) + alpha s * the (residual_prior s)), s))"
proof -
  note cs = compute_statistics_eq [OF assms(1), of env]
  have 1: "fst (compute_statistics env s) = None" by (simp add: cs)
  have 2: "residual_ell2 s' = Some (get_residual_ell2 env x)"
    and 3: "residual_prior s' = Some pr"
    by (simp_all add: assms(2-4) cs)
  have 4: "get_final_cost env s' = (Inr (get_residual_ell2 env x + alpha s * pr), s')"
    using get_final_cost_cached [OF 2 3, of env] by (simp add: assms(4) cs)
  have 5: "get_final_cost env s = (Inr (get_residual_ell2 env x + alpha s * pr), s')"
    if "residual_ell2 s = None \<or> residual_prior s = None"
    using get_final_cost_fresh [OF assms(1) that, of env] by (simp add: assms(2-4))
  have 6: "get_final_cost env s
             = (Inr (the (residual_ell2 s) + alpha s * the (residual_prior s)), s)"
    if "\<not> (residual_ell2 s = None \<or> residual_prior s = None)"
    using that by (auto simp: get_final_cost_cached)
  from 1 2 3 4 5 6 show ?thesis by simp
qed


theorem C6_final_cost_witness:
  "fst (compute_statistics example_env example_solver) = None
   \<and> fst (get_final_cost example_env (snd (compute_statistics example_env example_solver)))
       = Inr 61
   \<and> fst (get_final_cost example_env example_solver) = Inr 61"
proof -
  have r: "reg_type example_solver = ''TK0'' \<or> reg_type example_solver = ''TK1''"
    by (simp add: example_solver_def)
  have x: "[1, 2] = sitk (HR_volume example_solver)"
    by (simp add: example_solver_def)
  have pr: "5 = (if reg_type example_solver = ''TK0'' then sum_sq [1, 2]
                 else sum_sq (Dx example_env [1, 2]) + sum_sq (Dy example_env [1, 2])
                    + sum_sq (Dz example_env [1, 2]))"
    by (simp add: example_solver_def sum_sq_def)
  have e2: "get_residual_ell2 example_env [1, 2] = 41"
    by (simp add: example_env_def sum_sq_def)
  have a: "alpha example_solver = 4" "residual_ell2 example_solver = None"
    by (simp_all add: example_solver_def)
  show ?thesis
    using C6_final_cost [OF r x pr refl] by (simp add: e2 a)
qed

lemma after_first_run_eq:
  "after_first_run =
     example_solver\<lparr>elapsed_time_sec := Some 1,
                    HR_volume := \<lparr>itk = [2, 3], sitk = [2, 3], sitk_mask = [1, 1]\<rparr>\<rparr>"
proof -
  have b: "run_b example_env example_solver = Inr [5, 7, 0, 0]"
    by (simp add: run_b_def run_N_voxels_def get_b_eq example_env_def example_solver_def
          eval_nat_numeral)
  show ?thesis
    unfolding after_first_run_def run_reconstruction_def b
    by (simp add: example_env_def example_solver_def)
qed

lemma after_first_cost_eq:
  "after_first_cost =
     example_solver\<lparr>elapsed_time_sec := Some 1,
                    HR_volume := \<lparr>itk = [2, 3], sitk = [2, 3], sitk_mask = [1, 1]\<rparr>,
                    residual_ell2 := Some 25, residual_prior := Some 13\<rparr>"
proof -
  have r: "reg_type after_first_run = ''TK0'' \<or> reg_type after_first_run = ''TK1''"
    and n: "residual_ell2 after_first_run = None \<or> residual_prior after_first_run = None"
    by (simp_all add: after_first_run_eq example_solver_def)
  have "after_first_cost = snd (compute_statistics example_env after_first_run)"
    unfolding after_first_cost_def get_final_cost_fresh [OF r n] by simp
  also have "\<dots> = example_solver\<lparr>elapsed_time_sec := Some 1,
                    HR_volume := \<lparr>itk = [2, 3], sitk = [2, 3], sitk_mask = [1, 1]\<rparr>,
                    residual_ell2 := Some 25, residual_prior := Some 13\<rparr>"
    unfolding compute_statistics_eq [OF r]
    by (simp add: after_first_run_eq example_solver_def example_env_def sum_sq_def)
  finally show ?thesis .
qed

lemma second_run_eq:
  "run_reconstruction example_env 1 after_first_cost =
     (None, example_solver\<lparr>elapsed_time_sec := Some 1,
                    HR_volume := \<lparr>itk = [3, 4], sitk = [3, 4], sitk_mask = [1, 1]\<rparr>,
                    residual_ell2 := Some 25, residual_prior := Some 13\<rparr>)"
proof -
  have b: "run_b example_env after_first_cost = Inr [5, 7, 0, 0]"
    by (simp add: run_b_def run_N_voxels_def get_b_eq example_env_def example_solver_def
          after_first_cost_eq eval_nat_numeral)
  show ?thesis
    unfolding run_reconstruction_def b
    by (simp add: example_env_def example_solver_def after_first_cost_eq)
qed

lemma after_two_runs_eq:
  "after_two_runs =
     example_solver\<lparr>elapsed_time_sec := Some 1,
                    HR_volume := \<lparr>itk = [3, 4], sitk = [3, 4], sitk_mask = [1, 1]\<rparr>\<rparr>"
proof -
  have b: "run_b example_env after_first_run = Inr [5, 7, 0, 0]"
    by (simp add: run_b_def run_N_voxels_def get_b_eq example_env_def example_solver_def
          after_first_run_eq eval_nat_numeral)
  show ?thesis
    unfolding after_two_runs_def run_reconstruction_def b
    by (simp add: example_env_def example_solver_def after_first_run_eq)
qed

text \<open>
  C7. After a completed run, \<open>get_final_cost\<close> is to give the cost of the newly solved
  volume. The code misses the invalidation of its cache: a run completes, the final cost
  is queried (and cached), a second run completes and changes the volume to \<open>[3, 4]\<close>,
  and the next query still returns the cost \<open>77\<close> of the first solution, not the cost
  \<open>113\<close> of the volume it holds. Without the query in between, the same two runs lead to
  the same volume and the query returns \<open>113\<close>.
\<close>

theorem C7_stale_cost_after_second_run:
  "fst (run_reconstruction example_env 1 after_first_cost) = None
   \<and> sitk (HR_volume after_second_run) = [3, 4]
   \<and> fst (get_final_cost example_env after_second_run) = Inr 77
   \<and> get_residual_ell2 example_env (sitk (HR_volume after_second_run))
       + alpha after_second_run * get_residual_prior_TK0 (sitk (HR_volume after_second_run))
       = 113
   \<and> fst (get_final_cost example_env after_second_run)
       \<noteq> Inr (get_residual_ell2 example_env (sitk (HR_volume after_second_run))
              + alpha after_second_run
                * get_residual_prior_TK0 (sitk (HR_volume after_second_run)))
   \<and> sitk (HR_volume after_two_runs) = [3, 4]
   \<and> fst (get_final_cost example_env after_two_runs) = Inr 113"
proof -
  have s: "after_second_run = example_solver\<lparr>elapsed_time_sec := Some 1,
                    HR_volume := \<lparr>itk = [3, 4], sitk = [3, 4], sitk_mask = [1, 1]\<rparr>,
                    residual_ell2 := Some 25, residual_prior := Some 13\<rparr>"
    by (simp add: after_second_run_def second_run_eq)
  have c: "fst (get_final_cost example_env after_second_run) = Inr 77"
    by (simp add: s get_final_cost_def example_solver_def)
  have n: "get_residual_ell2 example_env (sitk (HR_volume after_second_run))
       + alpha after_second_run * get_residual_prior_TK0 (sitk (HR_volume after_second_run))
       = 113"
    by (simp add: s example_env_def example_solver_def sum_sq_def get_residual_prior_TK0_def)
  have r: "reg_type after_two_runs = ''TK0'' \<or> reg_type after_two_runs = ''TK1''"
    and e: "residual_ell2 after_two_runs = None \<or> residual_prior after_two_runs = None"
    by (simp_all add: after_two_runs_eq example_solver_def)
  have v: "sitk (HR_volume after_two_runs) = [3, 4]"
    by (simp add: after_two_runs_eq)
  have f: "fst (get_final_cost example_env after_two_runs) = Inr 113"
    unfolding get_final_cost_fresh [OF r e] v
    by (simp add: after_two_runs_eq example_solver_def example_env_def sum_sq_def)
  have h: "fst (run_reconstruction example_env 1 after_first_cost) = None"
    by (simp add: second_run_eq)
  have w: "sitk (HR_volume after_second_run) = [3, 4]"
    by (simp add: s)
  have d: "fst (get_final_cost example_env after_second_run)
       \<noteq> Inr (get_residual_ell2 example_env (sitk (HR_volume after_second_run))
              + alpha after_second_run
                * get_residual_prior_TK0 (sitk (HR_volume after_second_run)))"
    unfolding n c by simp
  show ?thesis
    by (intro conjI h w c n d v f)
qed

text \<open>
  C10. On a newly constructed solver, and still after a completed run that was not followed
  by \<open>compute_statistics\<close>, \<open>print_statistics\<close> raises: the residuals are \<open>None\<close>, and
  only the header and, when the elapsed time is a number, the elapsed time are printed
  before the exception.
\<close>

theorem C10_print_before_statistics:
  "fst (print_statistics (init base rt)) = Some TypeError
   \<and> snd (print_statistics (init base rt))
       = (case elapsed_time_sec base of
            None \<Rightarrow> [Header rt] | Some t' \<Rightarrow> [Header rt, ElapsedTime t'])
   \<and> fst (print_statistics (snd (run_reconstruction env t (init base rt)))) = Some TypeError"
proof -
  have "residual_ell2 (snd (run_reconstruction env t (init base rt))) = None"
    using run_reconstruction_residuals [of env t "init base rt"] by (simp add: init_def)
  then have "fst (print_statistics (snd (run_reconstruction env t (init base rt))))
               = Some TypeError"
    by (simp add: print_statistics_def split: option.splits)
  then show ?thesis
    by (simp add: print_statistics_def init_def split: option.splits)
qed

text \<open>
  C5 holds for the setter only. The setter rejects every value other than \<open>TK0\<close> and
  \<open>TK1\<close> and keeps the stored type; the constructor stores \<open>TK2\<close> as it is, a run then
  sizes the system as for first-order regularization, and the failure appears only
  when the minimizer first applies an operator, as the \<open>KeyError\<close> of the table.
\<close>

theorem C5_constructor_accepts_any_reg_type:
  "set_regularization_type s ''TK2'' = (Some ValueError, s)
   \<and> reg_type (init base ''TK2'') = ''TK2''
   \<and> run_N_voxels (init base ''TK2'')
       = N_total_slice_voxels base + 3 * N_voxels_HR_volume base
   \<and> run_b example_env (init example_solver ''TK2'') = Inr [5, 7, 0, 0, 0, 0, 0, 0]
   \<and> A_fw env (init base ''TK2'') x = Inl KeyError
   \<and> A_bw env (init base ''TK2'') z = Inl KeyError"
proof -
  have "run_b example_env (init example_solver ''TK2'') = Inr [5, 7, 0, 0, 0, 0, 0, 0]"
    by (simp add: run_b_def run_N_voxels_def get_b_eq init_def example_env_def
          example_solver_def eval_nat_numeral)
  then show ?thesis
    by (simp add: set_regularization_type_def init_def run_N_voxels_def A_fw_def A_bw_def
          A_table_def A_adj_table_def)
qed

section \<open>The settings filename\<close>

lemma replace_char_absent: "old \<noteq> new \<Longrightarrow> old \<notin> set (replace_char t old new)"
  by (auto simp: replace_char_def)

lemma replace_char_inj:
  assumes "new \<notin> set u" "new \<notin> set v" "replace_char u old new = replace_char v old new"
  shows "u = v"
  using assms
proof (induction u arbitrary: v)
  case Nil
  then show ?case by (simp add: replace_char_def)
next
  case (Cons c u)
  then obtain d w where v: "v = d # w" by (cases v) (auto simp: replace_char_def)
  with Cons.prems have "c = d" "replace_char u old new = replace_char w old new"
    by (auto simp: replace_char_def split: if_splits)
  with Cons v show ?case by simp
qed

lemma takeWhile_upto:
  "c \<notin> set ys \<Longrightarrow> takeWhile (\<lambda>d. d \<noteq> c) (ys @ c # r) = ys"
  by (induction ys) auto

lemma after_last_eq:
  assumes "c \<notin> set ys" "c \<notin> set ys'" "xs @ c # ys = xs' @ c # ys'"
  shows "ys = ys'"
proof -
  have "rev ys @ c # rev xs = rev ys' @ c # rev xs'"
    using arg_cong [OF assms(3), of rev] by simp
  then have "takeWhile (\<lambda>d. d \<noteq> c) (rev ys @ c # rev xs)
               = takeWhile (\<lambda>d. d \<noteq> c) (rev ys' @ c # rev xs')"
    by simp
  moreover have "takeWhile (\<lambda>d. d \<noteq> c) (rev ys @ c # rev xs) = rev ys"
    using assms(1) by (intro takeWhile_upto) simp
  moreover have "takeWhile (\<lambda>d. d \<noteq> c) (rev ys' @ c # rev xs') = rev ys'"
    using assms(2) by (intro takeWhile_upto) simp
  ultimately show ?thesis by simp
qed

lemma filename_shape:
  "get_setting_specific_filename str_float s prefix =
     replace_char (prefix @ ''_stacks'' @ str_nat (length (stacks s))
                   @ (if 0 < alpha s then ''_'' @ reg_type s else []) @ ''_'' @ minimizer s
                   @ ''_alph'') CHR ''.'' CHR ''p''
     @ CHR ''a'' # replace_char (str_float (alpha s)) CHR ''.'' CHR ''p''
     @ replace_char (''_itermax'' @ str_int (iter_max s)) CHR ''.'' CHR ''p''"
  by (simp add: get_setting_specific_filename_def replace_char_def Let_def)

lemma filename_alpha_text:
  assumes "get_setting_specific_filename str_float s1 prefix
             = get_setting_specific_filename str_float s2 prefix"
    and "iter_max s2 = iter_max s1"
    and "set (str_float (alpha s1)) \<subseteq> set ''0123456789.e+-''"
    and "set (str_float (alpha s2)) \<subseteq> set ''0123456789.e+-''"
  shows "str_float (alpha s1) = str_float (alpha s2)"
proof -
  let ?m = "\<lambda>t. replace_char t CHR ''.'' CHR ''p''"
  let ?S = "?m (''_itermax'' @ str_int (iter_max s1))"
  have a1: "CHR ''a'' \<notin> set (?m (str_float (alpha s1)))"
    and a2: "CHR ''a'' \<notin> set (?m (str_float (alpha s2)))"
    using assms(3,4) by (auto simp: replace_char_def)
  have p1: "CHR ''p'' \<notin> set (str_float (alpha s1))"
    and p2: "CHR ''p'' \<notin> set (str_float (alpha s2))"
    using assms(3,4) by auto
  obtain U1 U2 where
    "(U1 @ CHR ''a'' # ?m (str_float (alpha s1))) @ ?S
       = (U2 @ CHR ''a'' # ?m (str_float (alpha s2))) @ ?S"
    using assms(1) unfolding filename_shape assms(2) by simp
  then have "U1 @ CHR ''a'' # ?m (str_float (alpha s1))
               = U2 @ CHR ''a'' # ?m (str_float (alpha s2))"
    by (simp only: append_same_eq)
  then have "?m (str_float (alpha s1)) = ?m (str_float (alpha s2))"
    using a1 a2 by (rule after_last_eq [rotated 2])
  then show ?thesis using p1 p2 by (rule replace_char_inj [rotated 2])
qed


text \<open>
  C8. The settings filename is a function of the prefix, the number of stacks, the
  regularization type (entered only when \<open>alpha > 0\<close>), the minimizer name, \<open>alpha\<close> and
  the maximal number of iterations: two solvers that agree on these produce the same
  string, and the string is the concatenation of these parts with every dot replaced by
  \<open>p\<close>, so it contains no dot. Two configurations that differ only in \<open>alpha\<close> produce
  different strings, \<open>str\<close> being injective on the floating-point numbers \<open>F\<close> and
  writing them with digits, a dot, a sign and an exponent.
\<close>

theorem C8_setting_specific_filename:
  assumes "inj_on str_float F"
    and "alpha s1 \<in> F" and "alpha s2 \<in> F"
    and "set (str_float (alpha s1)) \<subseteq> set ''0123456789.e+-''"
    and "set (str_float (alpha s2)) \<subseteq> set ''0123456789.e+-''"
    and "length (stacks s2) = length (stacks s1)"
    and "reg_type s2 = reg_type s1"
    and "minimizer s2 = minimizer s1"
    and "iter_max s2 = iter_max s1"
  shows "(alpha s2 = alpha s1 \<longrightarrow>
            get_setting_specific_filename str_float s2 prefix
              = get_setting_specific_filename str_float s1 prefix)
       \<and> (alpha s2 \<noteq> alpha s1 \<longrightarrow>
            get_setting_specific_filename str_float s2 prefix
              \<noteq> get_setting_specific_filename str_float s1 prefix)
       \<and> CHR ''.'' \<notin> set (get_setting_specific_filename str_float s1 prefix)
       \<and> CHR ''.'' \<notin> set (get_setting_specific_filename str_float s2 prefix)
       \<and> get_setting_specific_filename str_float s1 prefix
           = replace_char
               (prefix @ ''_stacks'' @ str_nat (length (stacks s1))
                @ (if 0 < alpha s1 then ''_'' @ reg_type s1 else [])
                @ ''_'' @ minimizer s1 @ ''_alpha'' @ str_float (alpha s1)
                @ ''_itermax'' @ str_int (iter_max s1)) CHR ''.'' CHR ''p''"
proof -
  have same: "get_setting_specific_filename str_float s2 prefix
                = get_setting_specific_filename str_float s1 prefix"
    if "alpha s2 = alpha s1"
    using that assms(6-9) by (simp add: get_setting_specific_filename_def Let_def)
  have diff: "get_setting_specific_filename str_float s2 prefix
                \<noteq> get_setting_specific_filename str_float s1 prefix"
    if ne: "alpha s2 \<noteq> alpha s1"
  proof
    assume "get_setting_specific_filename str_float s2 prefix
              = get_setting_specific_filename str_float s1 prefix"
    then have "str_float (alpha s1) = str_float (alpha s2)"
      using assms(9,4,5) by (intro filename_alpha_text [of str_float s1 prefix s2]) simp_all
    then have "alpha s1 = alpha s2"
      using assms(1-3) by (simp add: inj_on_def)
    with ne show False by simp
  qed
  have nodot: "CHR ''.'' \<notin> set (get_setting_specific_filename str_float s prefix)" for s
    by (simp add: get_setting_specific_filename_def Let_def replace_char_absent)
  have shape: "get_setting_specific_filename str_float s1 prefix
           = replace_char
               (prefix @ ''_stacks'' @ str_nat (length (stacks s1))
                @ (if 0 < alpha s1 then ''_'' @ reg_type s1 else [])
                @ ''_'' @ minimizer s1 @ ''_alpha'' @ str_float (alpha s1)
                @ ''_itermax'' @ str_int (iter_max s1)) CHR ''.'' CHR ''p''"
    by (simp add: get_setting_specific_filename_def Let_def)
  from same diff nodot [of s1] nodot [of s2] shape show ?thesis by blast
qed

theorem C8_setting_specific_filename_witness:
  "get_setting_specific_filename example_str_float example_solver ''recon''
     = ''recon_stacks1_TK0_lsmr_alpha4p0_itermax10''
   \<and> get_setting_specific_filename example_str_float
         (example_solver\<lparr>alpha := 3 / 100\<rparr>) ''recon''
     = ''recon_stacks1_TK0_lsmr_alpha0p03_itermax10''
   \<and> get_setting_specific_filename example_str_float
         (example_solver\<lparr>alpha := 3 / 100\<rparr>) ''recon''
     \<noteq> get_setting_specific_filename example_str_float example_solver ''recon''
   \<and> CHR ''.'' \<notin> set (get_setting_specific_filename example_str_float example_solver
                          ''recon'')"
proof -
  have i: "inj_on example_str_float {0, 3 / 100, 4}"
    by (simp add: inj_on_def example_str_float_def)
  have m: "alpha example_solver \<in> {0, 3 / 100, 4 :: real}"
    "alpha (example_solver\<lparr>alpha := 3 / 100\<rparr>) \<in> {0, 3 / 100, 4 :: real}"
    by (simp_all add: example_solver_def)
  have c: "set (example_str_float (alpha example_solver)) \<subseteq> set ''0123456789.e+-''"
    "set (example_str_float (alpha (example_solver\<lparr>alpha := 3 / 100\<rparr>)))
       \<subseteq> set ''0123456789.e+-''"
    by (simp_all add: example_solver_def example_str_float_def)
  have e: "length (stacks (example_solver\<lparr>alpha := 3 / 100\<rparr>)) = length (stacks example_solver)"
    "reg_type (example_solver\<lparr>alpha := 3 / 100\<rparr>) = reg_type example_solver"
    "minimizer (example_solver\<lparr>alpha := 3 / 100\<rparr>) = minimizer example_solver"
    "iter_max (example_solver\<lparr>alpha := 3 / 100\<rparr>) = iter_max example_solver"
    by simp_all
  have n: "alpha (example_solver\<lparr>alpha := 3 / 100\<rparr>) \<noteq> alpha example_solver"
    by (simp add: example_solver_def)
  have v1: "get_setting_specific_filename example_str_float example_solver ''recon''
     = ''recon_stacks1_TK0_lsmr_alpha4p0_itermax10''"
    by (simp add: get_setting_specific_filename_def example_solver_def example_str_float_def
          replace_char_def str_int_def str_nat.simps digit_char_def Let_def)
  have v2: "get_setting_specific_filename example_str_float
         (example_solver\<lparr>alpha := 3 / 100\<rparr>) ''recon''
     = ''recon_stacks1_TK0_lsmr_alpha0p03_itermax10''"
    by (simp add: get_setting_specific_filename_def example_solver_def example_str_float_def
          replace_char_def str_int_def str_nat.simps digit_char_def Let_def)
  note t = C8_setting_specific_filename [OF i m(1) m(2) c(1) c(2) e, of "''recon''"]
  have d: "get_setting_specific_filename example_str_float
         (example_solver\<lparr>alpha := 3 / 100\<rparr>) ''recon''
     \<noteq> get_setting_specific_filename example_str_float example_solver ''recon''"
    using t n by blast
  have z: "CHR ''.'' \<notin> set (get_setting_specific_filename example_str_float example_solver
                          ''recon'')"
    using t by blast
  show ?thesis
    by (intro conjI v1 v2 d z)
qed

section \<open>The masked residual of the registration\<close>

lemma jacobian_rows_eq:
  assumes "list_all (\<lambda>i. i < length gf \<and> i < length gt
                         \<and> length (vec_mat (gf ! i) (gt ! i)) = d) idx"
  shows "jacobian_rows d gf gt idx = Inr (map (\<lambda>i. vec_mat (gf ! i) (gt ! i)) idx)"
  using assms by (induction idx) (simp_all add: assign_row_def)

lemma mul_rows_eq:
  assumes "length m = n"
  shows "mul_rows (map f [0..<n]) m = Inr (map (\<lambda>i. map (\<lambda>v. v * m ! i) (f i)) [0..<n])"
proof -
  have "map2 (\<lambda>row c. map (\<lambda>v. v * c) row) (map f [0..<n]) m
          = map (\<lambda>i. map (\<lambda>v. v * m ! i) (f i)) [0..<n]"
    using assms by (intro nth_equalityI) simp_all
  then show ?thesis using assms by (simp add: mul_rows_def)
qed


text \<open>
  C9. With the fixed mask in use, the residual of the data fit is the element-wise product
  of the mask and the flat difference \<open>y_fixed - A(theta) x_moving\<close>: the mask is applied
  by the caller to the output of the simulation filter, which is not given the mask. The
  Jacobian of the residual has, in row \<open>i\<close>, the negated product of the spatial gradient
  and the gradient of the transform at voxel \<open>i\<close>, multiplied by entry \<open>i\<close> of the same
  mask.
\<close>

theorem C9_masked_residual:
  assumes "use_fixed_mask r0"
    and "r = initialize_class r0"
    and "n = length (sitk (fixed r0))"
    and "length (sitk_mask (fixed r0)) = n"
    and "length (oriented_gaussian env (itk (moving r0)) theta) = n"
    and "dof_transform r0 \<le> length theta"
    and "gf = oriented_gaussian_jacobian env (itk (moving r0)) theta"
    and "gt = gradient_transform env (itk (fixed r0)) theta"
    and "length gf = n" and "length gt = n"
    and "\<And>i. i < n \<Longrightarrow> length (vec_mat (gf ! i) (gt ! i)) = dof_transform r0"
  shows "nda_mask r = Some (sitk_mask (fixed r0))
       \<and> get_residual_data_fit env r theta
           = Inr (map2 (*) (map2 (-) (sitk (fixed r0))
                                    (oriented_gaussian env (itk (moving r0)) theta))
                           (sitk_mask (fixed r0)))
       \<and> get_jacobian_residual_data_fit env r theta
           = Inr (map (\<lambda>i. map (\<lambda>v. - (v * sitk_mask (fixed r0) ! i))
                                 (vec_mat (gf ! i) (gt ! i))) [0..<n])"
proof -
  have r: "r = r0\<lparr>fixed_voxels := Some n, nda_mask := Some (sitk_mask (fixed r0))\<rparr>"
    using assms(1-3) by (simp add: initialize_class_def Let_def)
  have res: "get_residual_data_fit env r theta
           = Inr (map2 (*) (map2 (-) (sitk (fixed r0))
                                    (oriented_gaussian env (itk (moving r0)) theta))
                           (sitk_mask (fixed r0)))"
    using assms(1,3-5)
    by (simp add: r get_residual_data_fit_def
          execute_oriented_gaussian_interpolate_image_filter_def
          np_sub_def np_mul_def np_binop_def)
  have "list_all (\<lambda>i. i < length gf \<and> i < length gt
                       \<and> length (vec_mat (gf ! i) (gt ! i)) = dof_transform r0) [0..<n]"
    using assms(9-11) by (simp add: list_all_iff)
  then have rows: "jacobian_rows (dof_transform r0) gf gt [0..<n]
                     = Inr (map (\<lambda>i. vec_mat (gf ! i) (gt ! i)) [0..<n])"
    by (rule jacobian_rows_eq)
  have "get_jacobian_residual_data_fit env r theta
          = Inr (map (map uminus)
                   (map (\<lambda>i. map (\<lambda>v. v * sitk_mask (fixed r0) ! i)
                                   (vec_mat (gf ! i) (gt ! i))) [0..<n]))"
    using assms(1,6) rows mul_rows_eq [OF assms(4), of "\<lambda>i. vec_mat (gf ! i) (gt ! i)"]
    by (simp add: r get_jacobian_residual_data_fit_def
          execute_oriented_gaussian_interpolate_image_filter_def
          flip: assms(7,8))
  then have jac: "get_jacobian_residual_data_fit env r theta
           = Inr (map (\<lambda>i. map (\<lambda>v. - (v * sitk_mask (fixed r0) ! i))
                                 (vec_mat (gf ! i) (gt ! i))) [0..<n])"
    by (simp add: comp_def)
  from r res jac show ?thesis by simp
qed

theorem C9_masked_residual_witness:
  "get_residual_data_fit example_registration_env (initialize_class example_registration)
     [0, 0] = Inr [4, 0]
   \<and> get_jacobian_residual_data_fit example_registration_env
       (initialize_class example_registration) [0, 0] = Inr [[- 1, - 2], [0, 0]]"
proof -
  let ?gf = "oriented_gaussian_jacobian example_registration_env
               (itk (moving example_registration)) [0, 0]"
  let ?gt = "gradient_transform example_registration_env
               (itk (fixed example_registration)) [0, 0]"
  have gf: "?gf = [[1, 0, 0], [0, 1, 0]]"
    and gt: "?gt = [[[1, 2], [3, 4], [5, 6]], [[1, 2], [3, 4], [5, 6]]]"
    by (simp_all add: example_registration_env_def)
  have v0: "vec_mat (?gf ! 0) (?gt ! 0) = [1, 2]"
    and v1: "vec_mat (?gf ! 1) (?gt ! 1) = [3, 4]"
    unfolding gf gt by (simp_all add: vec_mat_def dot_def)
  have h: "use_fixed_mask example_registration"
    "2 = length (sitk (fixed example_registration))"
    "length (sitk_mask (fixed example_registration)) = 2"
    "length (oriented_gaussian example_registration_env
               (itk (moving example_registration)) [0, 0]) = 2"
    "dof_transform example_registration \<le> length [0, 0 :: real]"
    "length ?gf = 2" "length ?gt = 2"
    by (simp_all add: example_registration_def example_registration_env_def)
  have s: "length (vec_mat (?gf ! i) (?gt ! i)) = dof_transform example_registration"
    if "i < 2" for i
  proof -
    from that have "i = 0 \<or> i = 1" by arith
    then show ?thesis using v0 v1 by (auto simp: example_registration_def)
  qed
  have u: "[0..<2] = [0, 1]" by (simp add: upt_rec)
  note t = C9_masked_residual [OF h(1) refl h(2) h(3) h(4) h(5) refl refl h(6) h(7) s]
  show ?thesis
    using t unfolding u list.map v0 v1
    by (simp add: example_registration_def example_registration_env_def)
qed

end
